theory Spec2Isabelle
  imports Main "HOL-Library.Sublist" "HOL-Library.AList"
begin

section \<open>Go values shared by the packages\<close>

text \<open>
  A Go call either returns or panics (a failed single-value type assertion, a nil pointer
  dereference). A panic is an outcome of its own, so that "never panics" can be stated.
\<close>

datatype 'a outcome = Panic | Return 'a

text \<open>Errors of the Kubernetes API client, told apart by \<^verbatim>\<open>k8serrors.IsNotFound\<close> and friends.\<close>

datatype k8s_error = NotFound | AlreadyExists | Conflict | Other string

text \<open>
  Go \<^verbatim>\<open>error\<close> values: the sentinel of the adapters package, an error of the YAML
  encoder, an error of the API client, an error of \<^verbatim>\<open>SetControllerReference\<close>, and
  \<^verbatim>\<open>fmt.Errorf("...: %w", err)\<close>, which wraps an error under a message.
\<close>

datatype go_error =
    ErrInvalidYAML
  | MarshalError string
  | ClientError k8s_error
  | ReferenceError string
  | Errorf string go_error

definition IsNotFound :: "k8s_error \<Rightarrow> bool" where
  "IsNotFound e = (e = NotFound)"

text \<open>
  A Go \<^verbatim>\<open>map[string]string\<close>: \<open>None\<close> is the nil map, which reads as empty and must
  not be written to. Reading a missing key gives the empty string.
\<close>

type_synonym gomap = "(string \<rightharpoonup> string) option"

definition index :: "gomap \<Rightarrow> string \<Rightarrow> string" where
  "index m k = (case m of None \<Rightarrow> [] | Some f \<Rightarrow> (case f k of None \<Rightarrow> [] | Some v \<Rightarrow> v))"

text \<open>\<^verbatim>\<open>metav1.OwnerReference\<close>, by kind, name and the controller flag.\<close>

record OwnerReference =
  ref_Kind :: string
  ref_Name :: string
  ref_Controller :: bool

text \<open>\<^verbatim>\<open>metav1.ObjectMeta\<close>, embedded in every API object.\<close>

record ObjectMeta =
  Name :: string
  Namespace :: string
  Labels :: gomap
  Annotations :: gomap
  OwnerReferences :: "OwnerReference list"

text \<open>\<^verbatim>\<open>v1alpha1.Mode\<close>\<close>

datatype Mode = ModeDaemonSet | ModeDeployment | ModeSidecar | ModeStatefulSet

text \<open>
  \<^verbatim>\<open>v1alpha1.AmazonCloudWatchAgent\<close>: the object metadata and the fields of its
  \<^verbatim>\<open>Spec\<close> that the code below reads or writes.
\<close>

record AmazonCloudWatchAgent = ObjectMeta +
  Spec_Config :: string
  Spec_Mode :: Mode
  Spec_ServiceAccount :: string

section \<open>Go strings\<close>

text \<open>
  \<^verbatim>\<open>strings.HasPrefix(s, prefix)\<close> of the Go standard library:
  \<^verbatim>\<open>len(s) >= len(prefix) && s[:len(prefix)] == prefix\<close>.
\<close>

definition HasPrefix :: "string \<Rightarrow> string \<Rightarrow> bool" where
  "HasPrefix s p = (length p \<le> length s \<and> take (length p) s = p)"

section \<open>Instrumentation webhook: environment variable validation\<close>

text \<open>\<^verbatim>\<open>apis/v1alpha1/instrumentation_webhook.go\<close>\<close>

definition envPrefix :: string where
  "envPrefix = ''OTEL_''"

definition envSplunkPrefix :: string where
  "envSplunkPrefix = ''SPLUNK_''"

text \<open>\<^verbatim>\<open>corev1.EnvVar\<close>: the name and the literal value.\<close>

record EnvVar =
  env_Name :: string
  env_Value :: string

text \<open>
  \<^verbatim>\<open>validateEnv\<close> walks the list and returns at the first offending name; \<open>None\<close> is
  Go's \<^verbatim>\<open>nil\<close> error, \<open>Some msg\<close> the error built by \<^verbatim>\<open>fmt.Errorf\<close>.
\<close>

fun validateEnv :: "EnvVar list \<Rightarrow> string option" where
  "validateEnv [] = None"
| "validateEnv (env # envs) =
     (if \<not> HasPrefix (env_Name env) envPrefix \<and> \<not> HasPrefix (env_Name env) envSplunkPrefix
      then Some (''env name should start with '' @ [CHR 0x22] @ ''OTEL_'' @ [CHR 0x22] @ '' or ''
                 @ [CHR 0x22] @ ''SPLUNK_'' @ [CHR 0x22] @ '': '' @ env_Name env)
      else validateEnv envs)"

section \<open>Configuration documents\<close>

text \<open>
  What \<^verbatim>\<open>yaml.Unmarshal\<close> (gopkg.in/yaml.v2) puts behind an \<^verbatim>\<open>interface{}\<close>:
  nil, bool, int, string, \<^verbatim>\<open>[]interface{}\<close> and \<^verbatim>\<open>map[interface{}]interface{}\<close>; a
  value of any other dynamic type (float64, timestamps) is kept opaque as \<open>YOther\<close>.
  Keys of a map are values too: \<^verbatim>\<open>1: x\<close> has an int key.

  A Go map is an association list with distinct keys. The order of the list is the
  order in which \<^verbatim>\<open>range\<close> visits the entries in the run at hand (Go leaves it
  unspecified), so a statement for every list is a statement for every order.
\<close>

datatype yaml =
    YNull
  | YBool bool
  | YInt int
  | YStr string
  | YOther string
  | YSeq "yaml list"
  | YMap "(yaml \<times> yaml) list"

type_synonym yaml_map = "(yaml \<times> yaml) list"

text \<open>
  Modelled from the spec: \<^verbatim>\<open>adapters.ConfigFromString\<close> (package
  \<^verbatim>\<open>internal/manifests/collector/adapters\<close>), of which the sources hold the tests only.
  The spec: "\<^verbatim>\<open>parse(text) -> ConfigDocument | ParseError\<close>. Parsing a blank/empty input
  yields an empty document, not an error. Parsing malformed structured text yields
  \<^verbatim>\<open>ParseError\<close>". The YAML decoder is the parameter \<open>unmarshal\<close>, with \<open>None\<close> for a
  text it rejects. The result is Go's pair of a document (\<open>None\<close> is nil) and an
  error (\<open>None\<close> is nil).
\<close>

definition blank :: "string \<Rightarrow> bool" where
  "blank text = list_all (\<lambda>c. c = CHR '' '' \<or> c = CHR 0x09 \<or> c = CHR 0x0A \<or> c = CHR 0x0D) text"

definition ConfigFromString ::
  "(string \<Rightarrow> yaml_map option) \<Rightarrow> string \<Rightarrow> yaml_map option \<times> go_error option" where
  "ConfigFromString unmarshal text =
     (if blank text then (Some [], None)
      else (case unmarshal text of
              None \<Rightarrow> (None, Some ErrInvalidYAML)
            | Some config \<Rightarrow> (Some config, None)))"

section \<open>Collector upgrade steps\<close>

text \<open>\<^verbatim>\<open>pkg/collector/upgrade/v0_2_10.go\<close> and \<^verbatim>\<open>v0_31_0.go\<close>\<close>

text \<open>
  The steps take and return a pointer \<^verbatim>\<open>*v1alpha1.AmazonCloudWatchAgent\<close>. Pointers
  are addresses into a store of objects; an address outside the store is the nil
  pointer, and reading a field through it panics.
\<close>

type_synonym addr = nat
type_synonym heap = "addr \<rightharpoonup> AmazonCloudWatchAgent"

text \<open>
  An event given to \<^verbatim>\<open>u.Recorder.Event\<close>: its type, its reason and the receiver that
  the message names.
\<close>

record event =
  event_Type :: string
  event_Reason :: string
  event_Receiver :: string

text \<open>What a step returns: the store after the call, the pointer, the error, and the events recorded.\<close>

type_synonym step_result = "heap \<times> addr \<times> go_error option \<times> event list"


text \<open>
  The inner loop, \<^verbatim>\<open>for fieldKey := range influxdbConfig\<close>: \<open>fieldKeys\<close> are the keys
  still to visit, \<open>influxdbConfig\<close> the map as it stands. \<^verbatim>\<open>fieldKey.(string)\<close> panics on
  a key that is not a string.
\<close>

fun metrics_schema_loop ::
  "string \<Rightarrow> yaml list \<Rightarrow> yaml_map \<Rightarrow> event list \<Rightarrow> (yaml_map \<times> event list) outcome" where
  "metrics_schema_loop k [] influxdbConfig events = Return (influxdbConfig, events)"
| "metrics_schema_loop k (fieldKey # fieldKeys) influxdbConfig events =
     (case fieldKey of
        YStr s \<Rightarrow>
          (if HasPrefix s ''metrics_schema''
           then metrics_schema_loop k fieldKeys (AList.delete fieldKey influxdbConfig)
                  (events @ [\<lparr>event_Type = ''Normal'', event_Reason = ''Upgrade'', event_Receiver = k\<rparr>])
           else metrics_schema_loop k fieldKeys influxdbConfig events)
      | _ \<Rightarrow> Panic)"

text \<open>
  The outer loop, \<^verbatim>\<open>for k, v := range receivers\<close>, leaves either by the
  \<^verbatim>\<open>return otelcol, nil\<close> of line 43 or at its end. The inner map is changed in place, so
  the receivers map holds the changed value afterwards.
\<close>

datatype loop_exit = EarlyReturn "event list" | Completed yaml_map "event list"

fun receivers_loop :: "yaml_map \<Rightarrow> yaml_map \<Rightarrow> event list \<Rightarrow> loop_exit outcome" where
  "receivers_loop [] receivers events = Return (Completed receivers events)"
| "receivers_loop ((k, v) # rest) receivers events =
     (case k of
        YStr ks \<Rightarrow>
          (if HasPrefix ks ''influxdb''
           then (case v of
                   YMap influxdbConfig \<Rightarrow>
                     (case metrics_schema_loop ks (map fst influxdbConfig) influxdbConfig events of
                        Panic \<Rightarrow> Panic
                      | Return (influxdbConfig', events') \<Rightarrow>
                          receivers_loop rest (AList.update k (YMap influxdbConfig') receivers) events')
                 | _ \<Rightarrow> Return (EarlyReturn events))
           else receivers_loop rest receivers events)
      | _ \<Rightarrow> Panic)"

text \<open>
  \<^verbatim>\<open>upgrade0_31_0\<close>. \<open>parse\<close> is \<^verbatim>\<open>adapters.ConfigFromString\<close> and \<open>marshal\<close> is
  \<^verbatim>\<open>yaml.Marshal\<close>. Indexing a nil map reads as a missing key.
\<close>

definition upgrade0_31_0 ::
  "(string \<Rightarrow> yaml_map option \<times> go_error option) \<Rightarrow> (yaml_map \<Rightarrow> go_error + string)
     \<Rightarrow> heap \<Rightarrow> addr \<Rightarrow> step_result outcome" where
  "upgrade0_31_0 parse marshal h otelcol =
     (case h otelcol of
        None \<Rightarrow> Panic
      | Some obj \<Rightarrow>
          if length (Spec_Config obj) = 0 then Return (h, otelcol, None, [])
          else
            (case parse (Spec_Config obj) of
               (_, Some err) \<Rightarrow>
                 Return (h, otelcol,
                   Some (Errorf ''couldn't upgrade to v0.31.0, failed to parse configuration'' err), [])
             | (None, None) \<Rightarrow> Return (h, otelcol, None, [])
             | (Some cfg, None) \<Rightarrow>
                 (case map_of cfg (YStr ''receivers'') of
                    Some (YMap receivers) \<Rightarrow>
                      (case receivers_loop receivers receivers [] of
                         Panic \<Rightarrow> Panic
                       | Return (EarlyReturn events) \<Rightarrow> Return (h, otelcol, None, events)
                       | Return (Completed receivers' events) \<Rightarrow>
                           (case marshal (AList.update (YStr ''receivers'') (YMap receivers') cfg) of
                              Inl err \<Rightarrow>
                                Return (h, otelcol,
                                  Some (Errorf ''couldn't upgrade to v0.31.0, failed to marshall back configuration'' err),
                                  events)
                            | Inr res \<Rightarrow>
                                Return (h(otelcol \<mapsto> obj\<lparr>Spec_Config := res\<rparr>), otelcol, None, events)))
                  | _ \<Rightarrow> Return (h, otelcol, None, []))))"

text \<open>
  For the examples: what the YAML library does on a handful of texts and documents. Both
  tables agree with gopkg.in/yaml.v2 on the entries listed and are used on those only;
  \<open>yaml_Unmarshal_sample\<close> is the decoding into a \<^verbatim>\<open>map[interface{}]interface{}\<close>,
  which rejects a text that is a single scalar, as the one of \<^verbatim>\<open>TestInvalidYAML\<close> is.
\<close>

definition LF :: char where
  "LF = CHR 0x0A"

definition yaml_Unmarshal_sample :: "string \<Rightarrow> yaml_map option" where
  "yaml_Unmarshal_sample text =
     (if text = ''{receivers: {otlp: {}}}''
        then Some [(YStr ''receivers'', YMap [(YStr ''otlp'', YMap [])])]
      else if text = ''receivers: {1: {}}''
        then Some [(YStr ''receivers'', YMap [(YInt 1, YMap [])])]
      else if text = ''receivers: {influxdb: {metrics_schema: telegraf-prometheus-v1}}''
        then Some [(YStr ''receivers'',
                    YMap [(YStr ''influxdb'',
                           YMap [(YStr ''metrics_schema'', YStr ''telegraf-prometheus-v1'')])])]
      else if text = ''receivers: [otlp]''
        then Some [(YStr ''receivers'', YSeq [YStr ''otlp''])]
      else if text = ''exporters: {logging: {}}''
        then Some [(YStr ''exporters'', YMap [(YStr ''logging'', YMap [])])]
      else None)"

definition yaml_Marshal_sample :: "yaml_map \<Rightarrow> go_error + string" where
  "yaml_Marshal_sample cfg =
     (if cfg = [(YStr ''receivers'', YMap [(YStr ''otlp'', YMap [])])]
        then Inr (''receivers:'' @ [LF] @ ''  otlp: {}'' @ [LF])
      else if cfg = [(YStr ''receivers'', YMap [(YStr ''influxdb'', YMap [])])]
        then Inr (''receivers:'' @ [LF] @ ''  influxdb: {}'' @ [LF])
      else Inl (MarshalError ''not in the table''))"

text \<open>
  "Already upgraded": no receiver whose name starts with \<^verbatim>\<open>influxdb\<close> has a field whose
  name starts with \<^verbatim>\<open>metrics_schema\<close>.
\<close>

fun no_metrics_schema_field :: "yaml \<times> yaml \<Rightarrow> bool" where
  "no_metrics_schema_field (YStr s, _) = (\<not> HasPrefix s ''metrics_schema'')"
| "no_metrics_schema_field _ = True"

fun no_metrics_schema :: "yaml \<times> yaml \<Rightarrow> bool" where
  "no_metrics_schema (YStr ks, YMap influxdbConfig) =
     (\<not> HasPrefix ks ''influxdb'' \<or> list_all no_metrics_schema_field influxdbConfig)"
| "no_metrics_schema _ = True"

text \<open>
  "Well typed": the key of every receiver is a string and every \<^verbatim>\<open>influxdb\<close> receiver
  is a map whose keys are strings.
\<close>

fun string_key :: "yaml \<times> yaml \<Rightarrow> bool" where
  "string_key (YStr s, _) = True"
| "string_key _ = False"

fun well_typed_receiver :: "yaml \<times> yaml \<Rightarrow> bool" where
  "well_typed_receiver (YStr ks, YMap influxdbConfig) =
     (\<not> HasPrefix ks ''influxdb'' \<or> list_all string_key influxdbConfig)"
| "well_typed_receiver (YStr ks, _) = (\<not> HasPrefix ks ''influxdb'')"
| "well_typed_receiver _ = False"

section \<open>The API client\<close>

text \<open>
  The reconcilers talk to the cluster through \<^verbatim>\<open>client.Client\<close> of controller-runtime.
  The client is an object store: the live objects, at most one per namespace and name.
  Every call is written to \<open>calls\<close> with its outcome, so that what a reconciler issues
  can be stated; \<open>faults\<close> makes a call fail with an error of the server's choice
  (\<^verbatim>\<open>NotFound\<close>, \<^verbatim>\<open>Conflict\<close>, or any other).
\<close>

type_synonym NamespacedName = "string \<times> string"

definition ident :: "'a ObjectMeta_scheme \<Rightarrow> NamespacedName" where
  "ident obj = (Namespace obj, Name obj)"

datatype 'o call =
    Get NamespacedName
  | Create 'o
  | Patch 'o 'o
  | Update 'o
  | List "string option" "(string \<times> string) list"
  | Delete 'o

record 'o client =
  objects :: "'o list"
  faults :: "'o call \<Rightarrow> k8s_error option"
  calls :: "('o call \<times> k8s_error option) list"

definition called :: "'o client \<Rightarrow> 'o call \<Rightarrow> k8s_error option \<Rightarrow> 'o client" where
  "called c call result = c\<lparr>calls := calls c @ [(call, result)]\<rparr>"

definition exists_in :: "('a ObjectMeta_scheme) client \<Rightarrow> NamespacedName \<Rightarrow> bool" where
  "exists_in c key = list_ex (\<lambda>obj. ident obj = key) (objects c)"

definition replace :: "'a ObjectMeta_scheme \<Rightarrow> 'a ObjectMeta_scheme list \<Rightarrow> 'a ObjectMeta_scheme list" where
  "replace new objs = map (\<lambda>obj. if ident obj = ident new then new else obj) objs"

text \<open>\<^verbatim>\<open>client.InNamespace\<close> and \<^verbatim>\<open>client.MatchingLabels\<close>: the selector of a \<^verbatim>\<open>List\<close>.\<close>

definition has_labels :: "(string \<times> string) list \<Rightarrow> gomap \<Rightarrow> bool" where
  "has_labels selector labels =
     list_all (\<lambda>(k, v). (case labels of None \<Rightarrow> False | Some f \<Rightarrow> f k = Some v)) selector"

definition selected :: "string option \<Rightarrow> (string \<times> string) list \<Rightarrow> 'a ObjectMeta_scheme \<Rightarrow> bool" where
  "selected ns selector obj =
     ((case ns of None \<Rightarrow> True | Some n \<Rightarrow> Namespace obj = n) \<and> has_labels selector (Labels obj))"

definition client_Get ::
  "('a ObjectMeta_scheme) client \<Rightarrow> NamespacedName
     \<Rightarrow> (k8s_error + 'a ObjectMeta_scheme) \<times> ('a ObjectMeta_scheme) client" where
  "client_Get c key =
     (case faults c (Get key) of
        Some err \<Rightarrow> (Inl err, called c (Get key) (Some err))
      | None \<Rightarrow>
          (case find (\<lambda>obj. ident obj = key) (objects c) of
             None \<Rightarrow> (Inl NotFound, called c (Get key) (Some NotFound))
           | Some obj \<Rightarrow> (Inr obj, called c (Get key) None)))"

definition client_Create ::
  "('a ObjectMeta_scheme) client \<Rightarrow> 'a ObjectMeta_scheme
     \<Rightarrow> k8s_error option \<times> ('a ObjectMeta_scheme) client" where
  "client_Create c obj =
     (case faults c (Create obj) of
        Some err \<Rightarrow> (Some err, called c (Create obj) (Some err))
      | None \<Rightarrow>
          if exists_in c (ident obj) then (Some AlreadyExists, called c (Create obj) (Some AlreadyExists))
          else (None, called (c\<lparr>objects := objects c @ [obj]\<rparr>) (Create obj) None))"

text \<open>
  \<^verbatim>\<open>Patch(ctx, updated, client.MergeFrom(existing))\<close> sends the difference between
  \<open>existing\<close> and \<open>updated\<close>; applied to the live object that \<open>existing\<close> was read from,
  it gives \<open>updated\<close>.
\<close>

definition client_Patch ::
  "('a ObjectMeta_scheme) client \<Rightarrow> 'a ObjectMeta_scheme \<Rightarrow> 'a ObjectMeta_scheme
     \<Rightarrow> k8s_error option \<times> ('a ObjectMeta_scheme) client" where
  "client_Patch c updated existing =
     (case faults c (Patch updated existing) of
        Some err \<Rightarrow> (Some err, called c (Patch updated existing) (Some err))
      | None \<Rightarrow>
          if exists_in c (ident updated)
          then (None, called (c\<lparr>objects := replace updated (objects c)\<rparr>) (Patch updated existing) None)
          else (Some NotFound, called c (Patch updated existing) (Some NotFound)))"

definition client_Update ::
  "('a ObjectMeta_scheme) client \<Rightarrow> 'a ObjectMeta_scheme
     \<Rightarrow> k8s_error option \<times> ('a ObjectMeta_scheme) client" where
  "client_Update c obj =
     (case faults c (Update obj) of
        Some err \<Rightarrow> (Some err, called c (Update obj) (Some err))
      | None \<Rightarrow>
          if exists_in c (ident obj)
          then (None, called (c\<lparr>objects := replace obj (objects c)\<rparr>) (Update obj) None)
          else (Some NotFound, called c (Update obj) (Some NotFound)))"

definition client_List ::
  "('a ObjectMeta_scheme) client \<Rightarrow> string option \<Rightarrow> (string \<times> string) list
     \<Rightarrow> (k8s_error + 'a ObjectMeta_scheme list) \<times> ('a ObjectMeta_scheme) client" where
  "client_List c ns selector =
     (case faults c (List ns selector) of
        Some err \<Rightarrow> (Inl err, called c (List ns selector) (Some err))
      | None \<Rightarrow> (Inr (filter (selected ns selector) (objects c)), called c (List ns selector) None))"

definition client_Delete ::
  "('a ObjectMeta_scheme) client \<Rightarrow> 'a ObjectMeta_scheme
     \<Rightarrow> k8s_error option \<times> ('a ObjectMeta_scheme) client" where
  "client_Delete c obj =
     (case faults c (Delete obj) of
        Some err \<Rightarrow> (Some err, called c (Delete obj) (Some err))
      | None \<Rightarrow>
          if exists_in c (ident obj)
          then (None, called (c\<lparr>objects := filter (\<lambda>live. ident live \<noteq> ident obj) (objects c)\<rparr>)
                        (Delete obj) None)
          else (Some NotFound, called c (Delete obj) (Some NotFound)))"

section \<open>Reconciling the service accounts\<close>

text \<open>
  Package \<^verbatim>\<open>reconcile\<close>, \<^verbatim>\<open>ServiceAccounts\<close> and its helpers. \<^verbatim>\<open>corev1.ServiceAccount\<close>
  is the object metadata and the fields the reconciler does not own, here its secrets.
\<close>

record ServiceAccount = ObjectMeta +
  Secrets :: "string list"

record Params =
  Instance :: AmazonCloudWatchAgent

text \<open>
  \<^verbatim>\<open>collector.ServiceAccount\<close>, which renders the desired account, and
  \<^verbatim>\<open>controllerutil.SetControllerReference\<close> with the scheme of the parameters are not
  part of the sources: they are the parameters \<open>render\<close> and \<open>setRef\<close>.
\<close>

definition desiredServiceAccounts ::
  "(AmazonCloudWatchAgent \<Rightarrow> ServiceAccount) \<Rightarrow> Params \<Rightarrow> ServiceAccount list" where
  "desiredServiceAccounts render params =
     (if Spec_Mode (Instance params) \<noteq> ModeSidecar \<and> length (Spec_ServiceAccount (Instance params)) = 0
      then [] @ [render (Instance params)]
      else [])"

definition entries :: "gomap \<Rightarrow> (string \<rightharpoonup> string)" where
  "entries m = (case m of None \<Rightarrow> Map.empty | Some f \<Rightarrow> f)"

text \<open>
  Lines 91 to 105: the copy of the live object with nil maps made empty, the owner
  references of the desired object, and every annotation and label of the desired
  object written over it.
\<close>

definition merged :: "ServiceAccount \<Rightarrow> ServiceAccount \<Rightarrow> ServiceAccount" where
  "merged existing desired =
     existing\<lparr>OwnerReferences := OwnerReferences desired,
              Annotations := Some (entries (Annotations existing) ++ entries (Annotations desired)),
              Labels := Some (entries (Labels existing) ++ entries (Labels desired))\<rparr>"

fun expectedServiceAccounts ::
  "(AmazonCloudWatchAgent \<Rightarrow> ServiceAccount \<Rightarrow> go_error + ServiceAccount) \<Rightarrow> Params
     \<Rightarrow> ServiceAccount client \<Rightarrow> ServiceAccount list \<Rightarrow> go_error option \<times> ServiceAccount client" where
  "expectedServiceAccounts setRef params c [] = (None, c)"
| "expectedServiceAccounts setRef params c (obj # expected) =
     (case setRef (Instance params) obj of
        Inl err \<Rightarrow> (Some (Errorf ''failed to set controller reference'' err), c)
      | Inr desired \<Rightarrow>
          (case client_Get c (Namespace desired, Name desired) of
             (Inl err, c1) \<Rightarrow>
               if IsNotFound err
               then (case client_Create c1 desired of
                       (Some clientErr, c2) \<Rightarrow> (Some (Errorf ''failed to create'' (ClientError clientErr)), c2)
                     | (None, c2) \<Rightarrow> expectedServiceAccounts setRef params c2 expected)
               else (Some (Errorf ''failed to get'' (ClientError err)), c1)
           | (Inr existing, c1) \<Rightarrow>
               (case client_Patch c1 (merged existing desired) existing of
                  (Some err, c2) \<Rightarrow> (Some (Errorf ''failed to apply changes'' (ClientError err)), c2)
                | (None, c2) \<Rightarrow> expectedServiceAccounts setRef params c2 expected)))"

definition kept :: "ServiceAccount list \<Rightarrow> ServiceAccount \<Rightarrow> bool" where
  "kept expected existing =
     list_ex (\<lambda>keep. Name keep = Name existing \<and> Namespace keep = Namespace existing) expected"

fun delete_loop ::
  "ServiceAccount client \<Rightarrow> ServiceAccount list \<Rightarrow> ServiceAccount list
     \<Rightarrow> go_error option \<times> ServiceAccount client" where
  "delete_loop c expected [] = (None, c)"
| "delete_loop c expected (existing # items) =
     (if \<not> kept expected existing
      then (case client_Delete c existing of
              (Some err, c') \<Rightarrow> (Some (Errorf ''failed to delete'' (ClientError err)), c')
            | (None, c') \<Rightarrow> delete_loop c' expected items)
      else delete_loop c expected items)"

definition ownership_labels :: "Params \<Rightarrow> (string \<times> string) list" where
  "ownership_labels params =
     [(''app.kubernetes.io/instance'', Namespace (Instance params) @ ''.'' @ Name (Instance params)),
      (''app.kubernetes.io/managed-by'', ''amazon-cloudwatch-agent-operator'')]"

definition deleteServiceAccounts ::
  "Params \<Rightarrow> ServiceAccount client \<Rightarrow> ServiceAccount list \<Rightarrow> go_error option \<times> ServiceAccount client" where
  "deleteServiceAccounts params c expected =
     (case client_List c (Some (Namespace (Instance params))) (ownership_labels params) of
        (Inl err, c') \<Rightarrow> (Some (Errorf ''failed to list'' (ClientError err)), c')
      | (Inr items, c') \<Rightarrow> delete_loop c' expected items)"

definition ServiceAccounts ::
  "(AmazonCloudWatchAgent \<Rightarrow> ServiceAccount) \<Rightarrow> (AmazonCloudWatchAgent \<Rightarrow> ServiceAccount \<Rightarrow> go_error + ServiceAccount)
     \<Rightarrow> Params \<Rightarrow> ServiceAccount client \<Rightarrow> go_error option \<times> ServiceAccount client" where
  "ServiceAccounts render setRef params c =
     (let desired = desiredServiceAccounts render params in
      case expectedServiceAccounts setRef params c desired of
        (Some err, c') \<Rightarrow> (Some (Errorf ''failed to reconcile the expected service accounts'' err), c')
      | (None, c') \<Rightarrow>
          (case deleteServiceAccounts params c' desired of
             (Some err, c'') \<Rightarrow> (Some (Errorf ''failed to reconcile the service accounts to be deleted'' err), c'')
           | (None, c'') \<Rightarrow> (None, c'')))"

section \<open>Upgrading the managed Instrumentation instances\<close>

text \<open>
  Package \<^verbatim>\<open>upgrade\<close> of \<^verbatim>\<open>pkg/instrumentation\<close>. \<^verbatim>\<open>v1alpha1.Instrumentation\<close> is the
  object metadata and, of its \<^verbatim>\<open>Spec\<close>, the image of the Java agent.
\<close>

record Instrumentation = ObjectMeta +
  Spec_Java_Image :: string

text \<open>
  The annotation names of package \<^verbatim>\<open>constants\<close> and the state of the feature gates are
  not part of the sources: they are the parameters \<open>K\<close> and \<open>IsEnabled\<close>.
\<close>

record constants =
  AnnotationDefaultAutoInstrumentationJava :: string
  AnnotationDefaultAutoInstrumentationNodeJS :: string
  AnnotationDefaultAutoInstrumentationPython :: string
  AnnotationDefaultAutoInstrumentationDotNet :: string
  AnnotationDefaultAutoInstrumentationGo :: string
  AnnotationDefaultAutoInstrumentationApacheHttpd :: string
  AnnotationDefaultAutoInstrumentationNginx :: string

datatype Gate =
    EnableJavaAutoInstrumentationSupport
  | EnableNodeJSAutoInstrumentationSupport
  | EnablePythonAutoInstrumentationSupport
  | EnableDotnetAutoInstrumentationSupport
  | EnableGoAutoInstrumentationSupport
  | EnableApacheHTTPAutoInstrumentationSupport
  | EnableNginxAutoInstrumentationSupport

text \<open>The map \<^verbatim>\<open>defaultAnnotationToGate\<close>, its entries in the order a \<^verbatim>\<open>range\<close> visits them.\<close>

definition defaultAnnotationToGate :: "constants \<Rightarrow> (string \<times> Gate) list" where
  "defaultAnnotationToGate K =
     [(AnnotationDefaultAutoInstrumentationJava K, EnableJavaAutoInstrumentationSupport),
      (AnnotationDefaultAutoInstrumentationNodeJS K, EnableNodeJSAutoInstrumentationSupport),
      (AnnotationDefaultAutoInstrumentationPython K, EnablePythonAutoInstrumentationSupport),
      (AnnotationDefaultAutoInstrumentationDotNet K, EnableDotnetAutoInstrumentationSupport),
      (AnnotationDefaultAutoInstrumentationGo K, EnableGoAutoInstrumentationSupport),
      (AnnotationDefaultAutoInstrumentationApacheHttpd K, EnableApacheHTTPAutoInstrumentationSupport),
      (AnnotationDefaultAutoInstrumentationNginx K, EnableNginxAutoInstrumentationSupport)]"

text \<open>\<^verbatim>\<open>InstrumentationUpgrade\<close>: of its fields, the default image that \<^verbatim>\<open>upgrade\<close> reads.\<close>

record InstrumentationUpgrade =
  DefaultAutoInstJava :: string

text \<open>
  One round of the loop of \<^verbatim>\<open>upgrade\<close>: \<open>inst\<close> is the argument, \<open>upgraded\<close> its
  deep copy as it stands, \<open>rejected\<close> the gates for which a warning event was recorded.
\<close>

definition upgrade_step ::
  "InstrumentationUpgrade \<Rightarrow> constants \<Rightarrow> (Gate \<Rightarrow> bool) \<Rightarrow> Instrumentation
     \<Rightarrow> Instrumentation \<times> Gate list \<Rightarrow> string \<times> Gate \<Rightarrow> Instrumentation \<times> Gate list" where
  "upgrade_step u K IsEnabled inst state entry =
     (case state of (upgraded, rejected) \<Rightarrow>
      case entry of (annotation, gate) \<Rightarrow>
        let autoInst = index (Annotations upgraded) annotation in
        if autoInst \<noteq> []
        then (if IsEnabled gate
              then (if annotation = AnnotationDefaultAutoInstrumentationJava K
                    then (if Spec_Java_Image inst = autoInst
                          then (upgraded\<lparr>Spec_Java_Image := DefaultAutoInstJava u,
                                          Annotations := Some ((entries (Annotations upgraded))
                                                                 (annotation \<mapsto> DefaultAutoInstJava u))\<rparr>,
                                rejected)
                          else (upgraded, rejected))
                    else (upgraded, rejected))
              else (upgraded, rejected @ [gate]))
        else (upgraded, rejected))"

definition upgrade ::
  "InstrumentationUpgrade \<Rightarrow> constants \<Rightarrow> (Gate \<Rightarrow> bool) \<Rightarrow> Instrumentation \<Rightarrow> Instrumentation \<times> Gate list" where
  "upgrade u K IsEnabled inst =
     foldl (upgrade_step u K IsEnabled inst) (inst, []) (defaultAnnotationToGate K)"

text \<open>
  \<^verbatim>\<open>reflect.DeepEqual(x, y interface{})\<close>: an interface value carries its dynamic type,
  here \<^verbatim>\<open>*Instrumentation\<close> or \<^verbatim>\<open>Instrumentation\<close>. Values of distinct types are never
  deeply equal; two non-nil pointers are deeply equal when what they point to is.
\<close>

datatype 'a dynamic = Pointer 'a | Struct 'a

fun DeepEqual :: "'a dynamic \<Rightarrow> 'a dynamic \<Rightarrow> bool" where
  "DeepEqual (Pointer x) (Pointer y) = (x = y)"
| "DeepEqual (Struct x) (Struct y) = (x = y)"
| "DeepEqual _ _ = False"

text \<open>
  The loop of \<^verbatim>\<open>ManagedInstances\<close> over the listed items; \<^verbatim>\<open>upgrade\<close> returns a pointer
  and \<^verbatim>\<open>toUpgrade\<close> is a struct. A failed update is logged and the loop goes on.
\<close>

fun instances_loop ::
  "InstrumentationUpgrade \<Rightarrow> constants \<Rightarrow> (Gate \<Rightarrow> bool) \<Rightarrow> Instrumentation client
     \<Rightarrow> Instrumentation list \<Rightarrow> Gate list \<Rightarrow> Instrumentation client \<times> Gate list" where
  "instances_loop u K IsEnabled c [] rejected = (c, rejected)"
| "instances_loop u K IsEnabled c (toUpgrade # items) rejected =
     (case upgrade u K IsEnabled toUpgrade of
        (upgraded, rejected') \<Rightarrow>
          if \<not> DeepEqual (Pointer upgraded) (Struct toUpgrade)
          then (case client_Update c upgraded of
                  (_, c') \<Rightarrow> instances_loop u K IsEnabled c' items (rejected @ rejected'))
          else instances_loop u K IsEnabled c items (rejected @ rejected'))"

definition ManagedInstances ::
  "InstrumentationUpgrade \<Rightarrow> constants \<Rightarrow> (Gate \<Rightarrow> bool) \<Rightarrow> Instrumentation client
     \<Rightarrow> go_error option \<times> Instrumentation client \<times> Gate list" where
  "ManagedInstances u K IsEnabled c =
     (case client_List c None [(''app.kubernetes.io/managed-by'', ''amazon-cloudwatch-agent-operator'')] of
        (Inl err, c') \<Rightarrow> (Some (Errorf ''failed to list'' (ClientError err)), c', [])
      | (Inr items, c') \<Rightarrow> (None, instances_loop u K IsEnabled c' items []))"

section \<open>The calls of a pass\<close>

text \<open>
  \<open>root_cause\<close> unwraps the \<^verbatim>\<open>%w\<close> chain of an error down to the error first
  returned. \<open>not_found_get\<close> is the one failure that the reconciler expects. \<open>trace_ok\<close>
  describes the calls of a pass that returns \<open>r\<close>: an expected failure is followed by
  the creation of the object that was looked up, any other failure ends the calls and
  is the cause of \<open>r\<close>. \<open>failed_call\<close>: the pass from \<open>c\<close> to \<open>c'\<close> made a call, the last
  one failed other than as expected, and it is the cause of \<open>err\<close>.
\<close>

fun root_cause :: "go_error \<Rightarrow> go_error" where
  "root_cause (Errorf msg err) = root_cause err"
| "root_cause err = err"

fun not_found_get :: "'o call \<Rightarrow> k8s_error \<Rightarrow> bool" where
  "not_found_get (Get key) err = IsNotFound err"
| "not_found_get _ err = False"

fun got :: "'o call \<Rightarrow> NamespacedName option" where
  "got (Get key) = Some key"
| "got _ = None"

fun created :: "(('a ObjectMeta_scheme) call \<times> k8s_error option) list \<Rightarrow> NamespacedName option" where
  "created ((Create obj, out) # t) = Some (ident obj)"
| "created _ = None"

fun trace_ok :: "go_error option \<Rightarrow> (ServiceAccount call \<times> k8s_error option) list \<Rightarrow> bool" where
  "trace_ok r [] = True"
| "trace_ok r ((call, None) # t) = trace_ok r t"
| "trace_ok r ((call, Some err) # t) =
     (if not_found_get call err then created t = got call \<and> trace_ok r t
      else t = [] \<and> map_option root_cause r = Some (ClientError err))"

definition failed_call :: "go_error \<Rightarrow> ServiceAccount client \<Rightarrow> ServiceAccount client \<Rightarrow> bool" where
  "failed_call err c c' =
     (\<exists>call e. length (calls c) < length (calls c') \<and> last (calls c') = (call, Some e) \<and>
        \<not> not_found_get call e \<and> root_cause err = ClientError e)"

text \<open>Specifications for the examples; the second text is the one of \<^verbatim>\<open>TestInvalidYAML\<close> (a unicorn, in UTF-8).\<close>

definition sample_agent :: "string \<Rightarrow> AmazonCloudWatchAgent" where
  "sample_agent config =
     \<lparr>Name = ''agent'', Namespace = ''amazon-cloudwatch'', Labels = None, Annotations = None,
      OwnerReferences = [], Spec_Config = config, Spec_Mode = ModeDaemonSet,
      Spec_ServiceAccount = []\<rparr>"

definition unicorn :: string where
  "unicorn = [CHR 0xF0, CHR 0x9F, CHR 0xA6, CHR 0x84]"

text \<open>
  For the examples: the parameters of a pass for \<open>sample_agent\<close>, the service account
  \<open>name\<close> as rendered for it and as it is live (with the owner reference), a
  \<^verbatim>\<open>SetControllerReference\<close> that sets that reference, and a client without faults.
\<close>

definition sample_params :: Params where
  "sample_params = \<lparr>Instance = sample_agent []\<rparr>"

definition rendered :: "string \<Rightarrow> ServiceAccount" where
  "rendered name =
     \<lparr>Name = name, Namespace = ''amazon-cloudwatch'',
      Labels = Some [''app.kubernetes.io/instance'' \<mapsto> ''amazon-cloudwatch.agent'',
                     ''app.kubernetes.io/managed-by'' \<mapsto> ''amazon-cloudwatch-agent-operator''],
      Annotations = Some Map.empty, OwnerReferences = [], Secrets = []\<rparr>"

definition sample_setRef :: "AmazonCloudWatchAgent \<Rightarrow> ServiceAccount \<Rightarrow> go_error + ServiceAccount" where
  "sample_setRef owner obj =
     Inr (obj\<lparr>OwnerReferences :=
                [\<lparr>ref_Kind = ''AmazonCloudWatchAgent'', ref_Name = Name owner, ref_Controller = True\<rparr>]\<rparr>)"

definition account :: "string \<Rightarrow> ServiceAccount" where
  "account name =
     (rendered name)\<lparr>OwnerReferences :=
        [\<lparr>ref_Kind = ''AmazonCloudWatchAgent'', ref_Name = ''agent'', ref_Controller = True\<rparr>]\<rparr>"

definition sample_client :: "'o list \<Rightarrow> 'o client" where
  "sample_client objs = \<lparr>objects = objs, faults = (\<lambda>call. None), calls = []\<rparr>"

text \<open>
  For the examples: annotation names, an upgrader, and a managed Instrumentation that
  carries none of the default annotations.
\<close>

definition sample_constants :: constants where
  "sample_constants =
     \<lparr>AnnotationDefaultAutoInstrumentationJava = ''instrumentation.opentelemetry.io/default-auto-instrumentation-java-image'',
      AnnotationDefaultAutoInstrumentationNodeJS = ''instrumentation.opentelemetry.io/default-auto-instrumentation-nodejs-image'',
      AnnotationDefaultAutoInstrumentationPython = ''instrumentation.opentelemetry.io/default-auto-instrumentation-python-image'',
      AnnotationDefaultAutoInstrumentationDotNet = ''instrumentation.opentelemetry.io/default-auto-instrumentation-dotnet-image'',
      AnnotationDefaultAutoInstrumentationGo = ''instrumentation.opentelemetry.io/default-auto-instrumentation-go-image'',
      AnnotationDefaultAutoInstrumentationApacheHttpd = ''instrumentation.opentelemetry.io/default-auto-instrumentation-apache-httpd-image'',
      AnnotationDefaultAutoInstrumentationNginx = ''instrumentation.opentelemetry.io/default-auto-instrumentation-nginx-image''\<rparr>"

definition sample_upgrader :: InstrumentationUpgrade where
  "sample_upgrader = \<lparr>DefaultAutoInstJava = ''java:2''\<rparr>"

definition sample_instrumentation :: Instrumentation where
  "sample_instrumentation =
     \<lparr>Name = ''inst'', Namespace = ''default'',
      Labels = Some [''app.kubernetes.io/managed-by'' \<mapsto> ''amazon-cloudwatch-agent-operator''],
      Annotations = None, OwnerReferences = [], Spec_Java_Image = ''java:1''\<rparr>"

text \<open>
  For the examples: a renderer of the account named after the instance, and a server
  that refuses every \<^verbatim>\<open>Delete\<close>.
\<close>

definition sample_render :: "AmazonCloudWatchAgent \<Rightarrow> ServiceAccount" where
  "sample_render inst = rendered (Name inst)"

definition delete_fault :: "ServiceAccount call \<Rightarrow> k8s_error option" where
  "delete_fault call = (case call of Delete obj \<Rightarrow> Some (Other ''boom'') | _ \<Rightarrow> None)"

section \<open>Properties\<close>

lemma HasPrefix_prefix: "HasPrefix s p = prefix p s"
  by (auto simp: HasPrefix_def prefix_def min_def) (metis append_eq_conv_conj)

text \<open>
  Claim C10. Validation of a list of environment variables fails exactly when some
  variable of the list has a name that starts with neither \<^verbatim>\<open>OTEL_\<close> nor \<^verbatim>\<open>SPLUNK_\<close>;
  a list whose names all carry one of the two prefixes, the empty list included, passes.
\<close>

theorem validateEnv_fails_iff:
  "(validateEnv envs \<noteq> None) =
     (\<exists>env \<in> set envs. \<not> prefix ''OTEL_'' (env_Name env) \<and> \<not> prefix ''SPLUNK_'' (env_Name env))"
  by (induction envs) (auto simp: HasPrefix_prefix envPrefix_def envSplunkPrefix_def)

theorem validateEnv_fails_iff_witness:
  "validateEnv [\<lparr>env_Name = ''OTEL_TRACES_SAMPLER'', env_Value = ''xray''\<rparr>,
                \<lparr>env_Name = ''SPLUNK_TOKEN'', env_Value = ''t''\<rparr>] = None
   \<and> validateEnv [] = None
   \<and> validateEnv [\<lparr>env_Name = ''OTEL_X'', env_Value = ''''\<rparr>,
                  \<lparr>env_Name = ''JAVA_HOME'', env_Value = ''/opt''\<rparr>] \<noteq> None"
  using validateEnv_fails_iff [of "[\<lparr>env_Name = ''OTEL_TRACES_SAMPLER'', env_Value = ''xray''\<rparr>,
                \<lparr>env_Name = ''SPLUNK_TOKEN'', env_Value = ''t''\<rparr>]"]
        validateEnv_fails_iff [of "[]"]
        validateEnv_fails_iff [of "[\<lparr>env_Name = ''OTEL_X'', env_Value = ''''\<rparr>,
                  \<lparr>env_Name = ''JAVA_HOME'', env_Value = ''/opt''\<rparr>]"]
  by simp


subsection \<open>The v0.31.0 step\<close>

lemma metrics_schema_loop_noop:
  "list_all (\<lambda>k. string_key (k, u) \<and> no_metrics_schema_field (k, u)) ks \<Longrightarrow>
   metrics_schema_loop k ks m events = Return (m, events)"
  by (induction ks) (auto split: yaml.splits)

lemma receivers_loop_noop:
  "distinct (map fst receivers) \<Longrightarrow> set rs \<subseteq> set receivers \<Longrightarrow>
   list_all well_typed_receiver rs \<Longrightarrow> list_all no_metrics_schema rs \<Longrightarrow>
   receivers_loop rs receivers events = Return (Completed receivers events)"
proof (induction rs)
  case Nil
  then show ?case by simp
next
  case (Cons e rs)
  obtain k v where e: "e = (k, v)" by (cases e)
  from Cons.prems e obtain ks where k: "k = YStr ks" by (cases k) auto
  have look: "map_of receivers k = Some v"
    using Cons.prems e by simp
  have rest: "receivers_loop rs receivers events = Return (Completed receivers events)"
    using Cons by simp
  show ?case
  proof (cases "HasPrefix ks ''influxdb''")
    case False
    then show ?thesis using e k rest by simp
  next
    case True
    with Cons.prems e k obtain fs where v: "v = YMap fs" by (cases v) auto
    have "list_all string_key fs" "list_all no_metrics_schema_field fs"
      using Cons.prems e k v True by auto
    then have "list_all (\<lambda>fk. string_key (fk, YNull) \<and> no_metrics_schema_field (fk, YNull)) (map fst fs)"
      by (induction fs) (auto elim: string_key.elims no_metrics_schema_field.elims)
    then have "metrics_schema_loop ks (map fst fs) fs events = Return (fs, events)"
      by (rule metrics_schema_loop_noop)
    moreover have "AList.update k (YMap fs) receivers = receivers"
      using look v by (simp add: update_triv)
    ultimately show ?thesis using e k v True rest by simp
  qed
qed

text \<open>
  Claim C3, as amended. The step applied to a specification that is already upgraded:
  when the receivers section is a map (distinct string keys, every \<^verbatim>\<open>influxdb\<close>
  receiver a map with string keys) in which no \<^verbatim>\<open>influxdb\<close> receiver has a
  \<^verbatim>\<open>metrics_schema\<close> field, the step changes nothing in the parsed document and records
  no event, and it replaces the configuration text by the serialisation of the parsed
  document (or returns the encoder's error and leaves the text alone). The text is thus
  unchanged byte for byte only where serialising the parsed document gives the text back.
\<close>

theorem upgrade0_31_0_already_upgraded:
  assumes "h otelcol = Some obj" and "Spec_Config obj \<noteq> []"
    and "parse (Spec_Config obj) = (Some cfg, None)"
    and "map_of cfg (YStr ''receivers'') = Some (YMap receivers)"
    and "distinct (map fst receivers)"
    and "list_all well_typed_receiver receivers"
    and "list_all no_metrics_schema receivers"
  shows "upgrade0_31_0 parse marshal h otelcol =
           (case marshal cfg of
              Inl err \<Rightarrow> Return (h, otelcol,
                  Some (Errorf ''couldn't upgrade to v0.31.0, failed to marshall back configuration'' err), [])
            | Inr res \<Rightarrow> Return (h(otelcol \<mapsto> obj\<lparr>Spec_Config := res\<rparr>), otelcol, None, []))"
proof -
  have "receivers_loop receivers receivers [] = Return (Completed receivers [])"
    using assms by (intro receivers_loop_noop) auto
  moreover have "AList.update (YStr ''receivers'') (YMap receivers) cfg = cfg"
    using assms(4) by (simp add: update_triv)
  ultimately show ?thesis
    using assms(1-4) by (simp add: upgrade0_31_0_def)
qed

theorem upgrade0_31_0_already_upgraded_witness:
  "upgrade0_31_0 (ConfigFromString yaml_Unmarshal_sample) yaml_Marshal_sample
     [0 \<mapsto> sample_agent ''{receivers: {otlp: {}}}''] 0 =
   Return ([0 \<mapsto> sample_agent (''receivers:'' @ [LF] @ ''  otlp: {}'' @ [LF])], 0, None, [])"
  using upgrade0_31_0_already_upgraded
    [of "[0 \<mapsto> sample_agent ''{receivers: {otlp: {}}}'']" 0 "sample_agent ''{receivers: {otlp: {}}}''"
        "ConfigFromString yaml_Unmarshal_sample"
        "[(YStr ''receivers'', YMap [(YStr ''otlp'', YMap [])])]"
        "[(YStr ''otlp'', YMap [])]" yaml_Marshal_sample]
  by (simp add: ConfigFromString_def yaml_Unmarshal_sample_def yaml_Marshal_sample_def
        sample_agent_def blank_def HasPrefix_def)

text \<open>
  Claim C3 as stated fails: the configuration \<^verbatim>\<open>{receivers: {otlp: {}}}\<close> has no
  \<^verbatim>\<open>influxdb\<close> receiver at all, and the step rewrites its text in block style.
\<close>

theorem upgrade0_31_0_rewrites_text_counterexample:
  "list_all no_metrics_schema [(YStr ''otlp'', YMap [])] \<and>
   upgrade0_31_0 (ConfigFromString yaml_Unmarshal_sample) yaml_Marshal_sample
     [0 \<mapsto> sample_agent ''{receivers: {otlp: {}}}''] 0 =
   Return ([0 \<mapsto> sample_agent (''receivers:'' @ [LF] @ ''  otlp: {}'' @ [LF])], 0, None, []) \<and>
   Spec_Config (sample_agent (''receivers:'' @ [LF] @ ''  otlp: {}'' @ [LF])) \<noteq>
   Spec_Config (sample_agent ''{receivers: {otlp: {}}}'')"
  by (simp add: upgrade0_31_0_def ConfigFromString_def yaml_Unmarshal_sample_def
        yaml_Marshal_sample_def sample_agent_def blank_def HasPrefix_def LF_def)

text \<open>
  Claim C4. The step is to handle every wrongly typed branch without a panic. It does
  not: the configuration \<^verbatim>\<open>receivers: {1: {}}\<close> is well formed, its receiver key is an
  int, and the type assertion \<^verbatim>\<open>k.(string)\<close> of line 39 panics.
\<close>

theorem upgrade0_31_0_panics_on_int_key:
  "upgrade0_31_0 (ConfigFromString yaml_Unmarshal_sample) yaml_Marshal_sample
     [0 \<mapsto> sample_agent ''receivers: {1: {}}''] 0 = Panic"
  by (simp add: upgrade0_31_0_def ConfigFromString_def yaml_Unmarshal_sample_def
        yaml_Marshal_sample_def sample_agent_def blank_def HasPrefix_def LF_def)

text \<open>
  Claim C6. The step succeeds and changes nothing when the configuration text is empty
  and when the parsed document has no receivers map (the key is missing, or its value is
  not a map); when parsing fails it returns the parse error, wrapped, and the
  specification still holds its configuration text.
\<close>

theorem upgrade0_31_0_noop_and_parse_error:
  "(h1 p1 = Some obj1 \<and> Spec_Config obj1 = [] \<longrightarrow>
      upgrade0_31_0 parse marshal h1 p1 = Return (h1, p1, None, []))
   \<and> (h2 p2 = Some obj2 \<and> Spec_Config obj2 \<noteq> [] \<and> parse (Spec_Config obj2) = (Some cfg, None)
        \<and> (\<forall>receivers. map_of cfg (YStr ''receivers'') \<noteq> Some (YMap receivers)) \<longrightarrow>
      upgrade0_31_0 parse marshal h2 p2 = Return (h2, p2, None, []))
   \<and> (h3 p3 = Some obj3 \<and> Spec_Config obj3 \<noteq> [] \<and> parse (Spec_Config obj3) = (doc, Some err) \<longrightarrow>
      upgrade0_31_0 parse marshal h3 p3 =
        Return (h3, p3, Some (Errorf ''couldn't upgrade to v0.31.0, failed to parse configuration'' err), []))"
  by (auto simp: upgrade0_31_0_def split: option.splits yaml.splits)

theorem upgrade0_31_0_noop_and_parse_error_witness:
  "upgrade0_31_0 (ConfigFromString yaml_Unmarshal_sample) yaml_Marshal_sample [0 \<mapsto> sample_agent []] 0 =
     Return ([0 \<mapsto> sample_agent []], 0, None, [])
   \<and> upgrade0_31_0 (ConfigFromString yaml_Unmarshal_sample) yaml_Marshal_sample
       [0 \<mapsto> sample_agent ''receivers: [otlp]''] 0 =
     Return ([0 \<mapsto> sample_agent ''receivers: [otlp]''], 0, None, [])
   \<and> upgrade0_31_0 (ConfigFromString yaml_Unmarshal_sample) yaml_Marshal_sample
       [0 \<mapsto> sample_agent unicorn] 0 =
     Return ([0 \<mapsto> sample_agent unicorn], 0,
       Some (Errorf ''couldn't upgrade to v0.31.0, failed to parse configuration'' ErrInvalidYAML), [])"
  using upgrade0_31_0_noop_and_parse_error
    [of "[0 \<mapsto> sample_agent []]" 0 "sample_agent []"
        "ConfigFromString yaml_Unmarshal_sample" yaml_Marshal_sample
        "[0 \<mapsto> sample_agent ''receivers: [otlp]'']" 0 "sample_agent ''receivers: [otlp]''"
        "[(YStr ''receivers'', YSeq [YStr ''otlp''])]"
        "[0 \<mapsto> sample_agent unicorn]" 0 "sample_agent unicorn" None ErrInvalidYAML]
  by (simp add: ConfigFromString_def yaml_Unmarshal_sample_def sample_agent_def blank_def unicorn_def)

subsection \<open>Parsing\<close>

text \<open>
  Claim C7. Parsing a blank text gives the empty document and no error; parsing a text
  that the decoder rejects gives \<^verbatim>\<open>ErrInvalidYAML\<close> and no document; and on every text
  the result is either a document or an error, never both and never neither.
\<close>

theorem ConfigFromString_blank_and_malformed:
  "(blank t1 \<longrightarrow> ConfigFromString unmarshal t1 = (Some [], None))
   \<and> (\<not> blank t2 \<and> unmarshal t2 = None \<longrightarrow> ConfigFromString unmarshal t2 = (None, Some ErrInvalidYAML))
   \<and> ((fst (ConfigFromString unmarshal t3) = None) = (snd (ConfigFromString unmarshal t3) \<noteq> None))"
  by (auto simp: ConfigFromString_def split: option.splits)

theorem ConfigFromString_blank_and_malformed_witness:
  "ConfigFromString yaml_Unmarshal_sample [] = (Some [], None)
   \<and> ConfigFromString yaml_Unmarshal_sample unicorn = (None, Some ErrInvalidYAML)
   \<and> ((fst (ConfigFromString yaml_Unmarshal_sample ''receivers: [otlp]'') = None) =
       (snd (ConfigFromString yaml_Unmarshal_sample ''receivers: [otlp]'') \<noteq> None))"
  using ConfigFromString_blank_and_malformed [of "[]" yaml_Unmarshal_sample unicorn "''receivers: [otlp]''"]
  by (simp add: blank_def unicorn_def yaml_Unmarshal_sample_def)




subsection \<open>Garbage collection of service accounts\<close>

lemma called_simps [simp]:
  "objects (called c call r) = objects c"
  "faults (called c call r) = faults c"
  "calls (called c call r) = calls c @ [(call, r)]"
  by (simp_all add: called_def)








subsection \<open>Patching a live service account\<close>

text \<open>
  Claim C2. A patch is to be issued only when the merged object differs from the live
  one. The code issues it always: with the live account \<open>a\<close> equal to the merge of
  itself and the desired account, the pass still calls \<^verbatim>\<open>Patch\<close>.
\<close>

theorem expectedServiceAccounts_patches_converged:
  "merged (account ''a'') (account ''a'') = account ''a'' \<and>
   expectedServiceAccounts sample_setRef sample_params (sample_client [account ''a'']) [rendered ''a''] =
   (None, \<lparr>objects = [account ''a''], faults = (\<lambda>call. None),
      calls = [(Get (''amazon-cloudwatch'', ''a''), None),
               (Patch (account ''a'') (account ''a''), None)]\<rparr>)"
  by (simp add: client_Get_def client_Create_def client_Patch_def IsNotFound_def sample_client_def
        sample_params_def sample_agent_def account_def rendered_def exists_in_def ident_def called_def
        sample_setRef_def replace_def merged_def entries_def)

subsection \<open>Writes of the Instrumentation upgrader\<close>

text \<open>
  Claim C9. An update is to be written exactly when the upgrade changed the instance.
  The code compares a pointer with a struct, which are never deeply equal, and so
  writes always: for an instance that carries none of the default annotations the
  upgrade returns the instance as it is, and \<^verbatim>\<open>Update\<close> is called all the same.
\<close>

theorem ManagedInstances_updates_unchanged:
  "upgrade sample_upgrader sample_constants (\<lambda>gate. True) sample_instrumentation =
     (sample_instrumentation, []) \<and>
   ManagedInstances sample_upgrader sample_constants (\<lambda>gate. True) (sample_client [sample_instrumentation]) =
   (None, \<lparr>objects = [sample_instrumentation], faults = (\<lambda>call. None),
      calls = [(List None [(''app.kubernetes.io/managed-by'', ''amazon-cloudwatch-agent-operator'')], None),
               (Update sample_instrumentation, None)]\<rparr>, [])"
  by (simp add: client_List_def client_Update_def sample_client_def selected_def has_labels_def
        exists_in_def ident_def called_def replace_def entries_def
      ManagedInstances_def upgrade_def upgrade_step_def defaultAnnotationToGate_def
      index_def sample_instrumentation_def sample_constants_def sample_upgrader_def)

subsection \<open>Errors in a pass over the service accounts\<close>

lemma trace_ok_cong:
  "map_option root_cause r = map_option root_cause r' \<Longrightarrow> trace_ok r t = trace_ok r' t"
  by (induction r t rule: trace_ok.induct) auto

lemma trace_ok_Errorf: "trace_ok (Some (Errorf msg err)) t = trace_ok (Some err) t"
  by (rule trace_ok_cong) simp

lemma created_append: "created t = Some key \<Longrightarrow> created (t @ t') = Some key"
  by (induction t rule: created.induct) auto

lemma not_found_get_got: "not_found_get call err \<Longrightarrow> \<exists>key. call = Get key \<and> got call = Some key"
  by (cases call) auto

lemma trace_ok_append:
  "trace_ok None t1 \<Longrightarrow> trace_ok r t2 \<Longrightarrow> trace_ok r (t1 @ t2)"
  by (induction "None :: go_error option" t1 rule: trace_ok.induct) (auto simp: created_append split: if_splits dest!: not_found_get_got)

lemma client_Get_calls:
  "client_Get c key = (res, c') \<Longrightarrow>
   calls c' = calls c @ [(Get key, case res of Inl err \<Rightarrow> Some err | Inr obj \<Rightarrow> None)]"
  by (auto simp: client_Get_def split: option.splits)

lemma client_Create_calls:
  "client_Create c obj = (res, c') \<Longrightarrow> calls c' = calls c @ [(Create obj, res)]"
  by (auto simp: client_Create_def split: option.splits if_splits)

lemma client_Patch_calls:
  "client_Patch c obj old = (res, c') \<Longrightarrow> calls c' = calls c @ [(Patch obj old, res)]"
  by (auto simp: client_Patch_def split: option.splits if_splits)

lemma client_Delete_calls:
  "client_Delete c obj = (res, c') \<Longrightarrow> calls c' = calls c @ [(Delete obj, res)]"
  by (auto simp: client_Delete_def split: option.splits if_splits)

lemma client_List_calls:
  "client_List c ns sel = (res, c') \<Longrightarrow>
   calls c' = calls c @ [(List ns sel, case res of Inl err \<Rightarrow> Some err | Inr items \<Rightarrow> None)]"
  by (auto simp: client_List_def split: option.splits)

lemma expected_trace:
  "expectedServiceAccounts setRef params c expected = (r, c') \<Longrightarrow>
   \<exists>t. calls c' = calls c @ t \<and> trace_ok r t"
proof (induction expected arbitrary: c)
  case Nil
  then show ?case by simp
next
  case (Cons obj expected)
  show ?case
  proof (cases "setRef (Instance params) obj")
    case (Inl err)
    then show ?thesis using Cons.prems by simp
  next
    case (Inr desired)
    obtain g c1 where g: "client_Get c (Namespace desired, Name desired) = (g, c1)"
      by (cases "client_Get c (Namespace desired, Name desired)")
    note gc = client_Get_calls [OF g]
    show ?thesis
    proof (cases g)
      case (Inl err)
      show ?thesis
      proof (cases "IsNotFound err")
        case False
        then show ?thesis using Cons.prems Inr g Inl gc by auto
      next
        case True
        obtain cr c2 where cr: "client_Create c1 desired = (cr, c2)"
          by (cases "client_Create c1 desired")
        note cc = client_Create_calls [OF cr]
        show ?thesis
        proof (cases cr)
          case (Some clientErr)
          then show ?thesis using Cons.prems Inr g Inl True cr gc cc
            by (auto simp: ident_def)
        next
          case None
          then have "expectedServiceAccounts setRef params c2 expected = (r, c')"
            using Cons.prems Inr g Inl True cr by simp
          from Cons.IH [OF this] obtain t where t: "calls c' = calls c2 @ t" "trace_ok r t" by blast
          have "calls c' = calls c @ ((Get (Namespace desired, Name desired), Some err) # (Create desired, None) # t)"
            using t gc cc Inl None by simp
          moreover have "trace_ok r ((Get (Namespace desired, Name desired), Some err) # (Create desired, None) # t)"
            using t True by (simp add: ident_def)
          ultimately show ?thesis by blast
        qed
      qed
    next
      case (Inr existing)
      obtain pr c2 where pr: "client_Patch c1 (merged existing desired) existing = (pr, c2)"
        by (cases "client_Patch c1 (merged existing desired) existing")
      note pc = client_Patch_calls [OF pr]
      show ?thesis
      proof (cases pr)
        case (Some err)
        then show ?thesis using Cons.prems \<open>setRef (Instance params) obj = Inr desired\<close> g Inr pr gc pc
          by auto
      next
        case None
        then have "expectedServiceAccounts setRef params c2 expected = (r, c')"
          using Cons.prems \<open>setRef (Instance params) obj = Inr desired\<close> g Inr pr by simp
        from Cons.IH [OF this] obtain t where t: "calls c' = calls c2 @ t" "trace_ok r t" by blast
        have "calls c' = calls c @ ((Get (Namespace desired, Name desired), None) # (Patch (merged existing desired) existing, None) # t)"
          using t gc pc Inr None by simp
        moreover have "trace_ok r ((Get (Namespace desired, Name desired), None) # (Patch (merged existing desired) existing, None) # t)"
          using t by simp
        ultimately show ?thesis by blast
      qed
    qed
  qed
qed

lemma delete_loop_trace:
  "delete_loop c expected items = (r, c') \<Longrightarrow> \<exists>t. calls c' = calls c @ t \<and> trace_ok r t"
proof (induction items arbitrary: c)
  case Nil
  then show ?case by simp
next
  case (Cons existing items)
  show ?case
  proof (cases "kept expected existing")
    case True
    then show ?thesis using Cons by simp
  next
    case False
    obtain dr c1 where d: "client_Delete c existing = (dr, c1)" by (cases "client_Delete c existing")
    note dc = client_Delete_calls [OF d]
    show ?thesis
    proof (cases dr)
      case (Some err)
      then show ?thesis using Cons.prems False d dc by auto
    next
      case None
      then have "delete_loop c1 expected items = (r, c')" using Cons.prems False d by simp
      from Cons.IH [OF this] obtain t where t: "calls c' = calls c1 @ t" "trace_ok r t" by blast
      have "calls c' = calls c @ ((Delete existing, None) # t)" using t dc None by simp
      moreover have "trace_ok r ((Delete existing, None) # t)" using t by simp
      ultimately show ?thesis by blast
    qed
  qed
qed

lemma deleteServiceAccounts_trace:
  assumes "deleteServiceAccounts params c expected = (r, c')"
  shows "\<exists>t. calls c' = calls c @ t \<and> trace_ok r t"
proof -
  let ?ns = "Some (Namespace (Instance params))" and ?sel = "ownership_labels params"
  obtain l c1 where l: "client_List c ?ns ?sel = (l, c1)" by (cases "client_List c ?ns ?sel")
  note lc = client_List_calls [OF l]
  show ?thesis
  proof (cases l)
    case (Inl err)
    then show ?thesis using assms l lc by (auto simp: deleteServiceAccounts_def)
  next
    case (Inr items)
    then have "delete_loop c1 expected items = (r, c')"
      using assms l by (simp add: deleteServiceAccounts_def)
    from delete_loop_trace [OF this] obtain t where t: "calls c' = calls c1 @ t" "trace_ok r t" by blast
    have "calls c' = calls c @ ((List ?ns ?sel, None) # t)" using t lc Inr by simp
    moreover have "trace_ok r ((List ?ns ?sel, None) # t)" using t by simp
    ultimately show ?thesis by blast
  qed
qed

lemma ServiceAccounts_trace:
  assumes "ServiceAccounts render setRef params c = (r, c')"
  shows "\<exists>t. calls c' = calls c @ t \<and> trace_ok r t"
proof -
  let ?d = "desiredServiceAccounts render params"
  obtain r1 c1 where e: "expectedServiceAccounts setRef params c ?d = (r1, c1)"
    by (cases "expectedServiceAccounts setRef params c ?d")
  from expected_trace [OF e] obtain t1 where t1: "calls c1 = calls c @ t1" "trace_ok r1 t1" by blast
  show ?thesis
  proof (cases r1)
    case (Some err)
    then have "r = Some (Errorf ''failed to reconcile the expected service accounts'' err)" "c' = c1"
      using assms e by (auto simp: ServiceAccounts_def)
    then show ?thesis using t1 Some by (auto simp: trace_ok_Errorf)
  next
    case None
    obtain r2 c2 where d: "deleteServiceAccounts params c1 ?d = (r2, c2)"
      by (cases "deleteServiceAccounts params c1 ?d")
    from deleteServiceAccounts_trace [OF d] obtain t2 where t2: "calls c2 = calls c1 @ t2" "trace_ok r2 t2" by blast
    have c': "c' = c2" using assms e d None by (auto simp: ServiceAccounts_def split: option.splits)
    have "trace_ok r t2"
    proof (cases r2)
      case None
      then show ?thesis using assms e d \<open>r1 = None\<close> t2 by (auto simp: ServiceAccounts_def)
    next
      case (Some err)
      then have "r = Some (Errorf ''failed to reconcile the service accounts to be deleted'' err)"
        using assms e d \<open>r1 = None\<close> by (auto simp: ServiceAccounts_def)
      then show ?thesis using t2 Some by (simp add: trace_ok_Errorf)
    qed
    then have "trace_ok r (t1 @ t2)" using t1 None by (auto intro: trace_ok_append)
    then show ?thesis using t1 t2 c' by auto
  qed
qed

lemma trace_ok_not_found:
  "trace_ok r t \<Longrightarrow> i < length t \<Longrightarrow> t ! i = (Get key, Some err) \<Longrightarrow> IsNotFound err \<Longrightarrow>
   Suc i < length t \<and> (\<exists>obj. fst (t ! Suc i) = Create obj \<and> ident obj = key)"
proof (induction r t arbitrary: i rule: trace_ok.induct)
  case (1 r)
  then show ?case by simp
next
  case (2 r call t)
  then show ?case by (cases i) auto
next
  case (3 r call e t)
  show ?case
  proof (cases i)
    case 0
    then have "created t = Some key" using 3 by (auto split: if_splits)
    then show ?thesis using 0 by (cases t rule: created.cases) auto
  next
    case (Suc j)
    then show ?thesis using 3 by (auto split: if_splits)
  qed
qed

lemma trace_ok_abort:
  "trace_ok r t \<Longrightarrow> i < length t \<Longrightarrow> t ! i = (call, Some err) \<Longrightarrow> \<not> not_found_get call err \<Longrightarrow>
   Suc i = length t \<and> map_option root_cause r = Some (ClientError err)"
proof (induction r t arbitrary: i rule: trace_ok.induct)
  case (1 r)
  then show ?case by simp
next
  case (2 r call t)
  then show ?case by (cases i) auto
next
  case (3 r call e t)
  then show ?case by (cases i) (auto split: if_splits)
qed


lemma failed_call_mono:
  "failed_call err c1 c' \<Longrightarrow> length (calls c) \<le> length (calls c1) \<Longrightarrow> failed_call err c c'"
  by (auto simp: failed_call_def)

lemma failed_call_Errorf: "failed_call (Errorf msg err) c c' = failed_call err c c'"
  by (simp add: failed_call_def)

lemma expected_failure:
  "expectedServiceAccounts setRef params c expected = (Some err, c') \<Longrightarrow>
   (\<exists>obj e. setRef (Instance params) obj = Inl e \<and> root_cause err = root_cause e) \<or> failed_call err c c'"
proof (induction expected arbitrary: c)
  case Nil
  then show ?case by simp
next
  case (Cons obj expected)
  show ?case
  proof (cases "setRef (Instance params) obj")
    case (Inl e)
    then have "root_cause err = root_cause e" using Cons.prems by auto
    then show ?thesis using Inl by blast
  next
    case (Inr desired)
    obtain g c1 where g: "client_Get c (Namespace desired, Name desired) = (g, c1)"
      by (cases "client_Get c (Namespace desired, Name desired)")
    note gc = client_Get_calls [OF g]
    show ?thesis
    proof (cases g)
      case (Inl e)
      show ?thesis
      proof (cases "IsNotFound e")
        case False
        then have "failed_call err c c'"
          using Cons.prems Inr g Inl gc by (auto simp: failed_call_def)
        then show ?thesis ..
      next
        case True
        obtain cr c2 where cr: "client_Create c1 desired = (cr, c2)"
          by (cases "client_Create c1 desired")
        note cc = client_Create_calls [OF cr]
        show ?thesis
        proof (cases cr)
          case (Some clientErr)
          then have "failed_call err c c'"
            using Cons.prems Inr g Inl True cr gc cc by (auto simp: failed_call_def)
          then show ?thesis ..
        next
          case None
          then have "expectedServiceAccounts setRef params c2 expected = (Some err, c')"
            using Cons.prems Inr g Inl True cr by simp
          from Cons.IH [OF this] show ?thesis
            using gc cc by (auto intro: failed_call_mono)
        qed
      qed
    next
      case (Inr existing)
      obtain pr c2 where pr: "client_Patch c1 (merged existing desired) existing = (pr, c2)"
        by (cases "client_Patch c1 (merged existing desired) existing")
      note pc = client_Patch_calls [OF pr]
      show ?thesis
      proof (cases pr)
        case (Some e)
        then have "failed_call err c c'"
          using Cons.prems \<open>setRef (Instance params) obj = Inr desired\<close> g Inr pr gc pc
          by (auto simp: failed_call_def)
        then show ?thesis ..
      next
        case None
        then have "expectedServiceAccounts setRef params c2 expected = (Some err, c')"
          using Cons.prems \<open>setRef (Instance params) obj = Inr desired\<close> g Inr pr by simp
        from Cons.IH [OF this] show ?thesis
          using gc pc by (auto intro: failed_call_mono)
      qed
    qed
  qed
qed

lemma delete_loop_failure:
  "delete_loop c expected items = (Some err, c') \<Longrightarrow> failed_call err c c'"
proof (induction items arbitrary: c)
  case Nil
  then show ?case by simp
next
  case (Cons existing items)
  show ?case
  proof (cases "kept expected existing")
    case True
    then show ?thesis using Cons by simp
  next
    case False
    obtain dr c1 where d: "client_Delete c existing = (dr, c1)" by (cases "client_Delete c existing")
    note dc = client_Delete_calls [OF d]
    show ?thesis
    proof (cases dr)
      case (Some e)
      then show ?thesis using Cons.prems False d dc by (auto simp: failed_call_def)
    next
      case None
      then have "delete_loop c1 expected items = (Some err, c')" using Cons.prems False d by simp
      from Cons.IH [OF this] show ?thesis using dc by (auto intro: failed_call_mono)
    qed
  qed
qed

lemma deleteServiceAccounts_failure:
  assumes "deleteServiceAccounts params c expected = (Some err, c')"
  shows "failed_call err c c'"
proof -
  let ?ns = "Some (Namespace (Instance params))" and ?sel = "ownership_labels params"
  obtain l c1 where l: "client_List c ?ns ?sel = (l, c1)" by (cases "client_List c ?ns ?sel")
  note lc = client_List_calls [OF l]
  show ?thesis
  proof (cases l)
    case (Inl e)
    then show ?thesis using assms l lc by (auto simp: deleteServiceAccounts_def failed_call_def)
  next
    case (Inr items)
    then have "delete_loop c1 expected items = (Some err, c')"
      using assms l by (simp add: deleteServiceAccounts_def)
    from delete_loop_failure [OF this] show ?thesis using lc by (auto intro: failed_call_mono)
  qed
qed

lemma ServiceAccounts_failure:
  assumes "ServiceAccounts render setRef params c = (Some err, c')"
  shows "(\<exists>obj e. setRef (Instance params) obj = Inl e \<and> root_cause err = root_cause e) \<or> failed_call err c c'"
proof -
  let ?d = "desiredServiceAccounts render params"
  obtain r1 c1 where e: "expectedServiceAccounts setRef params c ?d = (r1, c1)"
    by (cases "expectedServiceAccounts setRef params c ?d")
  from expected_trace [OF e] obtain t1 where t1: "calls c1 = calls c @ t1" by blast
  show ?thesis
  proof (cases r1)
    case (Some err1)
    then have "err = Errorf ''failed to reconcile the expected service accounts'' err1" "c' = c1"
      using assms e by (auto simp: ServiceAccounts_def)
    then show ?thesis using expected_failure [of setRef params c ?d err1 c1] e Some
      by (auto simp: failed_call_Errorf)
  next
    case None
    obtain r2 c2 where d: "deleteServiceAccounts params c1 ?d = (r2, c2)"
      by (cases "deleteServiceAccounts params c1 ?d")
    then obtain err2 where "r2 = Some err2" "c' = c2"
      "err = Errorf ''failed to reconcile the service accounts to be deleted'' err2"
      using assms e None by (cases r2) (auto simp: ServiceAccounts_def)
    then have "failed_call err c1 c'"
      using deleteServiceAccounts_failure [of params c1 ?d err2 c2] d by (simp add: failed_call_Errorf)
    then have "failed_call err c c'" using t1 by (auto intro: failed_call_mono)
    then show ?thesis ..
  qed
qed

text \<open>
  Claim C8. In a pass over the service accounts, with \<open>t\<close> the calls the pass makes:
  a \<^verbatim>\<open>Get\<close> that fails with "not found" is followed at once by the \<^verbatim>\<open>Create\<close> of the
  object with that namespace and name; a call that fails in any other way is the last
  call of the pass, and its error is the cause of the error the pass returns; and when
  the pass returns an error, its cause is the error of that last call, which is never a
  "not found" of a \<^verbatim>\<open>Get\<close>, or an error of \<^verbatim>\<open>SetControllerReference\<close>.
\<close>

theorem ServiceAccounts_error_routing:
  assumes "ServiceAccounts render setRef params c = (r, c')"
  shows "\<exists>t. calls c' = calls c @ t
     \<and> (\<forall>i key err. i < length t \<and> t ! i = (Get key, Some err) \<and> IsNotFound err \<longrightarrow>
            Suc i < length t \<and> (\<exists>obj. fst (t ! Suc i) = Create obj \<and> ident obj = key))
     \<and> (\<forall>i call err. i < length t \<and> t ! i = (call, Some err) \<and> \<not> not_found_get call err \<longrightarrow>
            Suc i = length t \<and> map_option root_cause r = Some (ClientError err))
     \<and> (\<forall>err. r = Some err \<longrightarrow>
            (\<exists>obj e. setRef (Instance params) obj = Inl e \<and> root_cause err = root_cause e)
            \<or> (\<exists>call e. t \<noteq> [] \<and> last t = (call, Some e) \<and> \<not> not_found_get call e
                   \<and> root_cause err = ClientError e))"
proof -
  from ServiceAccounts_trace [OF assms] obtain t where t: "calls c' = calls c @ t" "trace_ok r t" by blast
  have a: "\<forall>i key err. i < length t \<and> t ! i = (Get key, Some err) \<and> IsNotFound err \<longrightarrow>
            Suc i < length t \<and> (\<exists>obj. fst (t ! Suc i) = Create obj \<and> ident obj = key)"
    using trace_ok_not_found [OF t(2)] by blast
  have b: "\<forall>i call err. i < length t \<and> t ! i = (call, Some err) \<and> \<not> not_found_get call err \<longrightarrow>
            Suc i = length t \<and> map_option root_cause r = Some (ClientError err)"
    using trace_ok_abort [OF t(2)] by blast
  have c: "\<forall>err. r = Some err \<longrightarrow>
            (\<exists>obj e. setRef (Instance params) obj = Inl e \<and> root_cause err = root_cause e)
            \<or> (\<exists>call e. t \<noteq> [] \<and> last t = (call, Some e) \<and> \<not> not_found_get call e
                   \<and> root_cause err = ClientError e)"
  proof (intro allI impI)
    fix err assume "r = Some err"
    with ServiceAccounts_failure [of render setRef params c err c'] assms
    have "(\<exists>obj e. setRef (Instance params) obj = Inl e \<and> root_cause err = root_cause e) \<or> failed_call err c c'"
      by simp
    moreover have "failed_call err c c' \<Longrightarrow>
       \<exists>call e. t \<noteq> [] \<and> last t = (call, Some e) \<and> \<not> not_found_get call e \<and> root_cause err = ClientError e"
      using t(1) by (auto simp: failed_call_def)
    ultimately show "(\<exists>obj e. setRef (Instance params) obj = Inl e \<and> root_cause err = root_cause e)
            \<or> (\<exists>call e. t \<noteq> [] \<and> last t = (call, Some e) \<and> \<not> not_found_get call e
                   \<and> root_cause err = ClientError e)"
      by blast
  qed
  show ?thesis using t(1) a b c by blast
qed

theorem ServiceAccounts_error_routing_witness:
  "ServiceAccounts sample_render sample_setRef sample_params
     \<lparr>objects = [account ''old''], faults = delete_fault, calls = []\<rparr> =
   (Some (Errorf ''failed to reconcile the service accounts to be deleted''
            (Errorf ''failed to delete'' (ClientError (Other ''boom'')))),
    \<lparr>objects = [account ''old'', account ''agent''], faults = delete_fault,
      calls = [(Get (''amazon-cloudwatch'', ''agent''), Some NotFound),
               (Create (account ''agent''), None),
               (List (Some ''amazon-cloudwatch'')
                 [(''app.kubernetes.io/instance'', ''amazon-cloudwatch.agent''),
                  (''app.kubernetes.io/managed-by'', ''amazon-cloudwatch-agent-operator'')], None),
               (Delete (account ''old''), Some (Other ''boom''))]\<rparr>)"
  using ServiceAccounts_error_routing
    [of sample_render sample_setRef sample_params
        "\<lparr>objects = [account ''old''], faults = delete_fault, calls = []\<rparr>"
        "Some (Errorf ''failed to reconcile the service accounts to be deleted''
            (Errorf ''failed to delete'' (ClientError (Other ''boom''))))"
        "\<lparr>objects = [account ''old'', account ''agent''], faults = delete_fault,
          calls = [(Get (''amazon-cloudwatch'', ''agent''), Some NotFound),
               (Create (account ''agent''), None),
               (List (Some ''amazon-cloudwatch'')
                 [(''app.kubernetes.io/instance'', ''amazon-cloudwatch.agent''),
                  (''app.kubernetes.io/managed-by'', ''amazon-cloudwatch-agent-operator'')], None),
               (Delete (account ''old''), Some (Other ''boom''))]\<rparr>"]
  by (simp add: deleteServiceAccounts_def client_List_def client_Delete_def client_Get_def
        client_Create_def client_Patch_def sample_params_def sample_agent_def account_def rendered_def
        ownership_labels_def selected_def has_labels_def kept_def exists_in_def ident_def called_def
        sample_setRef_def replace_def merged_def entries_def
        ServiceAccounts_def desiredServiceAccounts_def sample_render_def
        delete_fault_def IsNotFound_def)

end
